theory Spec2Isabelle
  imports Complex_Main
begin

section \<open>Values, errors and tensors\<close>

text \<open>
  The Python of \<^verbatim>\<open>utils/predictor.py\<close> computes on floats and on torch tensors. The
  model computes on the reals. A Python exception is an \<open>Inl\<close> value; a float or tensor
  result that is not a real number (a complex number from a negative radicand, an
  infinity or a NaN from a division by zero) is the error \<open>NonReal\<close>. Rounding and
  overflow of the floating-point formats are not part of the model.
\<close>

datatype error = TypeError | ValueError | ZeroDivisionError | NotImplementedError
  | ShapeError | NonReal

type_synonym 'a result = "error + 'a"

definition rbind :: "'a result \<Rightarrow> ('a \<Rightarrow> 'b result) \<Rightarrow> 'b result" where
  "rbind m f = (case m of Inl e \<Rightarrow> Inl e | Inr v \<Rightarrow> f v)"

text \<open>\<^verbatim>\<open>a / b\<close> on Python floats raises on a zero divisor.\<close>

definition py_div :: "real \<Rightarrow> real \<Rightarrow> real result" where
  "py_div a b = (if b = 0 then Inl ZeroDivisionError else Inr (a / b))"

text \<open>\<^verbatim>\<open>a ** 0.5\<close>: a negative base gives a complex number (a NaN on a tensor).\<close>

definition pow_half :: "real \<Rightarrow> real result" where
  "pow_half a = (if a < 0 then Inl NonReal else Inr (sqrt a))"

text \<open>
  A two-dimensional tensor carries its column count, so that a tensor with no row still
  has a shape \<open>(0, D)\<close>. A one-dimensional tensor is a list.
\<close>

datatype tensor2 = Tensor2 (ncols: nat) (rows: "real list list")

definition shape :: "tensor2 \<Rightarrow> nat \<times> nat" where
  "shape t = (length (rows t), ncols t)"

definition wf_tensor :: "tensor2 \<Rightarrow> bool" where
  "wf_tensor t = list_all (\<lambda>r. length r = ncols t) (rows t)"

definition smul :: "real \<Rightarrow> tensor2 \<Rightarrow> tensor2" where
  "smul c t = Tensor2 (ncols t) (map (map (\<lambda>v. c * v)) (rows t))"

text \<open>
  Elementwise binary operations on two tensors. torch would broadcast a dimension of
  size one; every use below is on equal shapes, and any other pair is a \<open>ShapeError\<close>.
\<close>

definition tzip :: "(real \<Rightarrow> real \<Rightarrow> real) \<Rightarrow> tensor2 \<Rightarrow> tensor2 \<Rightarrow> tensor2 result" where
  "tzip f a b = (if shape a = shape b
     then Inr (Tensor2 (ncols a) (map2 (map2 f) (rows a) (rows b)))
     else Inl ShapeError)"

text \<open>A tensor divided by a float: a zero divisor makes every element infinite or NaN.\<close>

definition tdiv_scalar :: "tensor2 \<Rightarrow> real \<Rightarrow> tensor2 result" where
  "tdiv_scalar t d = (if d = 0 \<and> concat (rows t) \<noteq> [] then Inl NonReal
     else Inr (Tensor2 (ncols t) (map (map (\<lambda>v. v / d)) (rows t))))"

text \<open>
  \<^verbatim>\<open>torch.randn_like(x0)\<close>: a tensor of the shape of \<open>x0\<close> filled from the random
  source, which the model takes as the argument \<open>draw\<close> (the value drawn for row \<open>i\<close>,
  column \<open>j\<close>).
\<close>

definition randn_like :: "(nat \<Rightarrow> nat \<Rightarrow> real) \<Rightarrow> tensor2 \<Rightarrow> tensor2" where
  "randn_like draw t =
     Tensor2 (ncols t) (map (\<lambda>i. map (draw i) [0..<ncols t]) [0..<length (rows t)])"

section \<open>The reverse diffusion step\<close>

definition ddpm_sigma :: "real \<Rightarrow> real \<Rightarrow> real result" where
  "ddpm_sigma alphat alphatp =
     rbind (py_div (1 - alphatp) (1 - alphat)) (\<lambda>q.
     rbind (py_div alphat alphatp) (\<lambda>r.
     pow_half (q * (1 - r))))"

text \<open>
  \<^verbatim>\<open>ddpm_sigma(alphat, alphatp) * noise\<close>: the product of a float and \<^verbatim>\<open>None\<close> raises
  TypeError. The value is kept as an optional float, the type on which the source then
  tests \<^verbatim>\<open>sigma is None\<close>.
\<close>

definition mul_noise :: "real \<Rightarrow> real option \<Rightarrow> real option result" where
  "mul_noise s noise = (case noise of None \<Rightarrow> Inl TypeError | Some n \<Rightarrow> Inr (Some (s * n)))"

definition ddim_step ::
  "tensor2 \<Rightarrow> tensor2 \<Rightarrow> real \<times> real \<Rightarrow> real option \<Rightarrow> (nat \<Rightarrow> nat \<Rightarrow> real) \<Rightarrow> tensor2 result" where
  "ddim_step xt x0 alphas noise draw = (case alphas of (alphat, alphatp) \<Rightarrow>
     rbind (ddpm_sigma alphat alphatp) (\<lambda>s.
     rbind (mul_noise s noise) (\<lambda>sigma0.
     rbind (pow_half alphat) (\<lambda>ra.
     rbind (tzip (-) xt (smul ra x0)) (\<lambda>num.
     rbind (pow_half (1 - alphat)) (\<lambda>rb.
     rbind (tdiv_scalar num rb) (\<lambda>eps.
     rbind (case sigma0 of None \<Rightarrow> ddpm_sigma alphat alphatp | Some v \<Rightarrow> Inr v) (\<lambda>sigma.
     rbind (pow_half alphatp) (\<lambda>rp.
     rbind (pow_half (1 - alphatp - sigma\<^sup>2)) (\<lambda>c.
     rbind (tzip (+) (smul rp x0) (smul c eps)) (\<lambda>ab.
     tzip (+) ab (smul sigma (randn_like draw x0)))))))))))))"

section \<open>The Bayesian estimator\<close>

text \<open>
  The fields of \<^verbatim>\<open>BayesianEstimator\<close>: \<^verbatim>\<open>x\<close> (N rows of D coordinates), \<^verbatim>\<open>fitness\<close>
  (one value per row), \<^verbatim>\<open>alpha\<close>, \<^verbatim>\<open>density_method\<close> and \<^verbatim>\<open>h\<close>.
\<close>

record estimator =
  est_x :: tensor2
  est_fitness :: "real list"
  est_alpha :: real
  est_density_method :: string
  est_h :: real

definition BayesianEstimator ::
  "tensor2 \<Rightarrow> real list \<Rightarrow> real \<Rightarrow> string \<Rightarrow> real \<Rightarrow> estimator result" where
  "BayesianEstimator x fitness alpha density_arg h =
     (if density_arg \<notin> set [''uniform''] then Inl NotImplementedError
      else Inr \<lparr>est_x = x, est_fitness = fitness, est_alpha = alpha,
                est_density_method = density_arg, est_h = h\<rparr>)"

text \<open>
  \<^verbatim>\<open>torch.cat(..., dim=0)\<close> raises when the column counts differ, and \<^verbatim>\<open>append\<close> then
  assigns nothing; the concatenation of the one-dimensional \<^verbatim>\<open>fitness\<close> tensors always
  succeeds.
\<close>

definition cat0 :: "tensor2 \<Rightarrow> tensor2 \<Rightarrow> tensor2 result" where
  "cat0 a b = (if ncols a = ncols b then Inr (Tensor2 (ncols a) (rows a @ rows b))
     else Inl ShapeError)"

definition append_est :: "estimator \<Rightarrow> estimator \<Rightarrow> estimator result" where
  "append_est self other =
     rbind (cat0 (est_x self) (est_x other)) (\<lambda>x'.
     Inr ((self\<lparr>est_x := x'\<rparr>)\<lparr>est_fitness := est_fitness self @ est_fitness other\<rparr>))"

text \<open>\<^verbatim>\<open>density\<close> has no \<^verbatim>\<open>else\<close> branch: another method returns \<^verbatim>\<open>None\<close>.\<close>

definition density :: "estimator \<Rightarrow> tensor2 \<Rightarrow> real list option" where
  "density self x =
     (if est_density_method self = ''uniform''
      then Some (map (\<lambda>v. v / real (length (rows x))) (replicate (length (rows x)) 1))
      else None)"

definition norm_t :: "tensor2 \<Rightarrow> real list" where
  "norm_t x =
     (if ncols x = 1 then map (\<lambda>r. hd (map abs r)) (rows x)
      else map (\<lambda>r. sqrt (sum_list (map (\<lambda>v. \<bar>v\<bar>\<^sup>2) r))) (rows x))"

text \<open>
  \<^verbatim>\<open>x - mu\<close> inside the batched call: \<open>x\<close> is one query row, subtracted from every row
  of \<open>mu\<close>.
\<close>

definition row_sub :: "real list \<Rightarrow> tensor2 \<Rightarrow> tensor2 result" where
  "row_sub x mu = (if length x = ncols mu
     then Inr (Tensor2 (ncols mu) (map (\<lambda>r. map2 (-) x r) (rows mu)))
     else Inl ShapeError)"

primrec mapM_r :: "('a \<Rightarrow> 'b result) \<Rightarrow> 'a list \<Rightarrow> 'b list result" where
  "mapM_r f [] = Inr []"
| "mapM_r f (a # as) = rbind (f a) (\<lambda>b. rbind (mapM_r f as) (\<lambda>bs. Inr (b # bs)))"

text \<open>
  \<^verbatim>\<open>torch.exp(-(d ** 2) / den)\<close> for one element: with a zero \<open>den\<close> the quotient is
  minus infinity (its exponential is 0) unless \<open>d\<close> is 0 too, which gives a NaN.
\<close>

definition exp_neg_div :: "real \<Rightarrow> real \<Rightarrow> real result" where
  "exp_neg_div d den =
     (if den = 0 then (if d\<^sup>2 = 0 then Inl NonReal else Inr 0)
      else Inr (exp (- (d\<^sup>2) / den)))"

definition gaussian_prob :: "real list \<Rightarrow> tensor2 \<Rightarrow> real \<Rightarrow> real list result" where
  "gaussian_prob x mu sigma =
     rbind (row_sub x mu) (\<lambda>diff.
     let dist = norm_t diff in
     mapM_r (\<lambda>d. exp_neg_div d (2 * sigma\<^sup>2)) dist)"

definition eps9 :: real where
  "eps9 = 1 / 10 ^ 9"

definition tmul_scalar :: "tensor2 \<Rightarrow> real \<Rightarrow> tensor2" where
  "tmul_scalar t c = Tensor2 (ncols t) (map (map (\<lambda>v. v * c)) (rows t))"

definition vmul :: "real list \<Rightarrow> real list \<Rightarrow> real list result" where
  "vmul a b = (if length a = length b then Inr (map2 (*) a b) else Inl ShapeError)"

definition vdiv_scalar :: "real list \<Rightarrow> real \<Rightarrow> real list result" where
  "vdiv_scalar a d = (if d = 0 \<and> a \<noteq> [] then Inl NonReal else Inr (map (\<lambda>v. v / d) a))"

text \<open>\<^verbatim>\<open>prob.unsqueeze(1) * self.x\<close>: row \<open>i\<close> of \<open>x\<close> scaled by \<open>prob[i]\<close>.\<close>

definition scale_rows :: "real list \<Rightarrow> tensor2 \<Rightarrow> tensor2 result" where
  "scale_rows prob x = (if length prob = length (rows x)
     then Inr (Tensor2 (ncols x) (map2 (\<lambda>p r. map (\<lambda>v. p * v) r) prob (rows x)))
     else Inl ShapeError)"

definition sum_dim0 :: "tensor2 \<Rightarrow> real list" where
  "sum_dim0 t = map (\<lambda>k. sum_list (map (\<lambda>r. r ! k) (rows t))) [0..<ncols t]"

definition priv_estimate :: "estimator \<Rightarrow> real list \<Rightarrow> real \<Rightarrow> real list result" where
  "priv_estimate self x_t p_x_t =
     rbind (pow_half (est_alpha self)) (\<lambda>ra.
     let mu = tmul_scalar (est_x self) ra in
     rbind (pow_half (1 - est_alpha self)) (\<lambda>sigma.
     rbind (gaussian_prob x_t mu sigma) (\<lambda>p_diffusion.
     rbind (vmul (map (\<lambda>f. f + eps9) (est_fitness self)) (map (\<lambda>p. p + eps9) p_diffusion)) (\<lambda>num.
     rbind (vdiv_scalar num (p_x_t + eps9)) (\<lambda>prob.
     let z = sum_list prob in
     rbind (scale_rows prob (est_x self)) (\<lambda>weighted.
     vdiv_scalar (sum_dim0 weighted) (z + eps9)))))))"

text \<open>
  \<^verbatim>\<open>torch.vmap(self._estimate, (0, 0))(x_t, p_x_t)\<close> runs \<^verbatim>\<open>_estimate\<close> on each pair of
  a query row and its density weight and stacks the results; it rejects an input that
  is not a tensor.
\<close>

definition estimate :: "estimator \<Rightarrow> tensor2 \<Rightarrow> tensor2 result" where
  "estimate self x_t =
     (case density self x_t of
        None \<Rightarrow> Inl ValueError
      | Some p_x_t \<Rightarrow>
          rbind (mapM_r (\<lambda>(row, p). priv_estimate self row p) (zip (rows x_t) p_x_t)) (\<lambda>origin.
          Inr (Tensor2 (ncols (est_x self)) origin)))"

definition call_est :: "estimator \<Rightarrow> tensor2 \<Rightarrow> tensor2 result" where
  "call_est self x_t = estimate self x_t"

text \<open>
  The methods as transitions of the estimator object: each call returns its value (or
  the exception raised) and the object as it is after the call.
\<close>

datatype call = Append estimator | Density tensor2 | Estimate tensor2 | Call tensor2

datatype retval = RNone | RVec "real list option" | RTensor tensor2

fun exec :: "call \<Rightarrow> estimator \<Rightarrow> retval result \<times> estimator" where
  "exec (Append other) self =
     (case append_est self other of Inl e \<Rightarrow> (Inl e, self) | Inr self' \<Rightarrow> (Inr RNone, self'))"
| "exec (Density x) self = (Inr (RVec (density self x)), self)"
| "exec (Estimate x_t) self = (map_sum id RTensor (estimate self x_t), self)"
| "exec (Call x_t) self = (map_sum id RTensor (call_est self x_t), self)"

section \<open>The generator\<close>

record generator =
  gen_x :: tensor2
  gen_fitness :: "real list"
  gen_elite_strategy :: bool
  gen_alpha :: real
  gen_alpha_past :: real
  gen_estimator :: estimator

definition BayesianGenerator ::
  "tensor2 \<Rightarrow> real list \<Rightarrow> real \<times> real \<Rightarrow> string \<Rightarrow> real \<Rightarrow> bool \<Rightarrow> generator result" where
  "BayesianGenerator x fitness alpha density_arg h elite_strategy = (case alpha of (a, ap) \<Rightarrow>
     rbind (BayesianEstimator x fitness a density_arg h) (\<lambda>e.
     Inr \<lparr>gen_x = x, gen_fitness = fitness, gen_elite_strategy = elite_strategy,
          gen_alpha = a, gen_alpha_past = ap, gen_estimator = e\<rparr>))"

datatype gen_out = Next tensor2 | NextWithX0 tensor2 tensor2

text \<open>
  \<^verbatim>\<open>normalize\<close> is imported from \<^verbatim>\<open>utils.corrector\<close>, which is not part of the sources
  at hand: \<open>generate\<close> takes it as its first argument \<open>normalize_fn\<close>.
\<close>

definition generate ::
  "(tensor2 \<Rightarrow> tensor2 result) \<Rightarrow> generator \<Rightarrow> tensor2 \<Rightarrow> real option \<Rightarrow> real \<Rightarrow> bool
     \<Rightarrow> (nat \<Rightarrow> nat \<Rightarrow> real) \<Rightarrow> gen_out result" where
  "generate normalize_fn self x noise elite_rate return_x0 draw =
     rbind (call_est (gen_estimator self) x) (\<lambda>x0_est.
     rbind (ddim_step x x0_est (gen_alpha self, gen_alpha_past self) noise draw) (\<lambda>x_next.
     rbind (normalize_fn x_next) (\<lambda>x_next'.
     if return_x0 then Inr (NextWithX0 x_next' x0_est) else Inr (Next x_next'))))"

section \<open>The statements of the specification\<close>

text \<open>
  The table of \<open>M\<close> rows and \<open>D\<close> columns with entry \<open>g i j\<close>: the normal form in which
  the proofs compare tensors.
\<close>

definition tab :: "nat \<Rightarrow> nat \<Rightarrow> (nat \<Rightarrow> nat \<Rightarrow> real) \<Rightarrow> tensor2" where
  "tab M D g = Tensor2 D (map (\<lambda>i. map (g i) [0..<D]) [0..<M])"

text \<open>
  The formulas of the specification for one element of the reverse step, written from
  its words: the step deviation, the recovered noise and the next sample.
\<close>

definition spec_sigma :: "real \<Rightarrow> real \<Rightarrow> real \<Rightarrow> real" where
  "spec_sigma noise_scale alpha alpha_past =
     noise_scale * sqrt ((1 - alpha_past) / (1 - alpha) * (1 - alpha / alpha_past))"

definition spec_eps :: "real \<Rightarrow> real \<Rightarrow> real \<Rightarrow> real" where
  "spec_eps alpha xt x0 = (xt - sqrt alpha * x0) / sqrt (1 - alpha)"

definition spec_x_next :: "real \<Rightarrow> real \<Rightarrow> real \<Rightarrow> real \<Rightarrow> real \<Rightarrow> real \<Rightarrow> real" where
  "spec_x_next noise_scale alpha alpha_past xt x0 e =
     sqrt alpha_past * x0
     + sqrt (1 - alpha_past - (spec_sigma noise_scale alpha alpha_past)\<^sup>2) * spec_eps alpha xt x0
     + spec_sigma noise_scale alpha alpha_past * e"

text \<open>
  The formulas of the specification for the origin estimate of one query row \<open>xq\<close> in a
  batch of \<open>M\<close> rows: the squared distance to the scaled stored sample \<open>i\<close>, the weight
  of that sample, and coordinate \<open>k\<close> of the weighted centroid.
\<close>

definition spec_sqdist :: "estimator \<Rightarrow> real list \<Rightarrow> nat \<Rightarrow> real" where
  "spec_sqdist st xq i =
     (\<Sum>k<ncols (est_x st). (xq ! k - sqrt (est_alpha st) * rows (est_x st) ! i ! k)\<^sup>2)"

definition spec_weight :: "estimator \<Rightarrow> nat \<Rightarrow> real list \<Rightarrow> nat \<Rightarrow> real" where
  "spec_weight st M xq i =
     (est_fitness st ! i + 1 / 10 ^ 9)
     * (exp (- spec_sqdist st xq i / (2 * (1 - est_alpha st))) + 1 / 10 ^ 9)
     / (1 / real M + 1 / 10 ^ 9)"

definition spec_x0_est :: "estimator \<Rightarrow> nat \<Rightarrow> real list \<Rightarrow> nat \<Rightarrow> real" where
  "spec_x0_est st M xq k =
     (\<Sum>i<length (rows (est_x st)). spec_weight st M xq i * rows (est_x st) ! i ! k)
     / ((\<Sum>i<length (rows (est_x st)). spec_weight st M xq i) + 1 / 10 ^ 9)"

text \<open>The rows of a batch rearranged by \<open>p\<close>: row \<open>i\<close> of the result is row \<open>p i\<close>.\<close>

definition permute_rows :: "(nat \<Rightarrow> nat) \<Rightarrow> tensor2 \<Rightarrow> tensor2" where
  "permute_rows p t = Tensor2 (ncols t) (map (\<lambda>i. rows t ! p i) [0..<length (rows t)])"

text \<open>The value of a result, whichever error a failed one carries.\<close>

definition ok :: "'a result \<Rightarrow> 'a option" where
  "ok m = (case m of Inl e \<Rightarrow> None | Inr v \<Rightarrow> Some v)"

section \<open>Basic facts\<close>

lemma rbind_Inr [simp]: "rbind (Inr v) f = f v"
  by (simp add: rbind_def)

lemma rbind_Inl [simp]: "rbind (Inl e) f = Inl e"
  by (simp add: rbind_def)

lemma tab_of_wf:
  assumes "wf_tensor t"
  shows "t = tab (length (rows t)) (ncols t) (\<lambda>i j. rows t ! i ! j)"
proof (cases t)
  case (Tensor2 D rs)
  have "rs = map (\<lambda>i. map (\<lambda>j. rs ! i ! j) [0..<D]) [0..<length rs]"
    if "\<forall>r\<in>set rs. length r = D"
  proof (rule nth_equalityI)
    show "length rs = length (map (\<lambda>i. map (\<lambda>j. rs ! i ! j) [0..<D]) [0..<length rs])"
      by simp
  next
    fix i assume i: "i < length rs"
    then have "length (rs ! i) = D" using that by simp
    then have "rs ! i = map (\<lambda>j. rs ! i ! j) [0..<D]"
      by (simp add: list_eq_iff_nth_eq)
    then show "rs ! i = map (\<lambda>i. map (\<lambda>j. rs ! i ! j) [0..<D]) [0..<length rs] ! i"
      using i by simp
  qed
  then show ?thesis using Tensor2 assms by (simp add: wf_tensor_def tab_def list_all_iff)
qed

lemma tab_of_shape:
  assumes "wf_tensor t" "shape t = (M, D)"
  shows "t = tab M D (\<lambda>i j. rows t ! i ! j)"
  using tab_of_wf [OF assms(1)] assms(2) by (simp add: shape_def)

lemma shape_tab [simp]: "shape (tab M D g) = (M, D)"
  by (simp add: shape_def tab_def)

lemma wf_tab [simp]: "wf_tensor (tab M D g)"
  by (simp add: wf_tensor_def tab_def list_all_iff)

lemma rows_tab_nth: "i < M \<Longrightarrow> j < D \<Longrightarrow> rows (tab M D g) ! i ! j = g i j"
  by (simp add: tab_def)

lemma tab_cong: "(\<And>i j. i < M \<Longrightarrow> j < D \<Longrightarrow> g i j = h i j) \<Longrightarrow> tab M D g = tab M D h"
  by (simp add: tab_def)

lemma smul_tab [simp]: "smul c (tab M D g) = tab M D (\<lambda>i j. c * g i j)"
  by (simp add: smul_def tab_def)

lemma tzip_tab [simp]:
  "tzip f (tab M D g) (tab M D h) = Inr (tab M D (\<lambda>i j. f (g i j) (h i j)))"
  by (simp add: tzip_def tab_def shape_def list_eq_iff_nth_eq)

lemma tdiv_scalar_tab:
  "d \<noteq> 0 \<Longrightarrow> tdiv_scalar (tab M D g) d = Inr (tab M D (\<lambda>i j. g i j / d))"
  by (simp add: tdiv_scalar_def tab_def)

lemma randn_like_tab [simp]: "randn_like draw (tab M D g) = tab M D draw"
  by (simp add: randn_like_def tab_def)

section \<open>The reverse diffusion step: results\<close>

lemma ddim_step_tab:
  assumes a: "0 \<le> alphat" "alphat < 1" "0 \<le> alphatp"
    and s: "ddpm_sigma alphat alphatp = Inr s"
    and c: "0 \<le> 1 - alphatp - (s * n)\<^sup>2"
  shows "ddim_step (tab M D g) (tab M D h) (alphat, alphatp) (Some n) draw =
    Inr (tab M D (\<lambda>i j. sqrt alphatp * h i j
       + sqrt (1 - alphatp - (s * n)\<^sup>2) * ((g i j - sqrt alphat * h i j) / sqrt (1 - alphat))
       + s * n * draw i j))"
  using a c by (simp add: ddim_step_def s mul_noise_def pow_half_def tdiv_scalar_tab)

lemma ddpm_sigma_ok:
  assumes "alphat < 1" "0 < alphatp" "alphat \<le> alphatp" "alphatp \<le> 1"
  shows "ddpm_sigma alphat alphatp =
    Inr (sqrt ((1 - alphatp) / (1 - alphat) * (1 - alphat / alphatp)))"
proof -
  have "0 \<le> (1 - alphatp) / (1 - alphat)" using assms by simp
  moreover have "0 \<le> 1 - alphat / alphatp" using assms by simp
  ultimately have "0 \<le> (1 - alphatp) / (1 - alphat) * (1 - alphat / alphatp)"
    by (rule mult_nonneg_nonneg)
  then have "pow_half ((1 - alphatp) / (1 - alphat) * (1 - alphat / alphatp)) =
      Inr (sqrt ((1 - alphatp) / (1 - alphat) * (1 - alphat / alphatp)))"
    unfolding pow_half_def by (simp only: not_less [symmetric] if_False)
  moreover have "py_div (1 - alphatp) (1 - alphat) = Inr ((1 - alphatp) / (1 - alphat))"
    using assms by (simp add: py_div_def)
  moreover have "py_div alphat alphatp = Inr (alphat / alphatp)"
    using assms by (simp add: py_div_def)
  ultimately show ?thesis by (simp only: ddpm_sigma_def rbind_Inr)
qed

text \<open>
  In the regime of a reverse step (\<open>alpha \<le> alpha_past \<le> 1\<close>) a noise scale of at most 1
  keeps the second radicand of the step non-negative.
\<close>

lemma spec_sigma_bound:
  assumes "0 < alpha" "alpha < 1" "0 < alpha_past" "alpha_past \<le> 1" "alpha \<le> alpha_past"
    and "0 \<le> noise_scale" "noise_scale \<le> 1"
  shows "(spec_sigma noise_scale alpha alpha_past)\<^sup>2 \<le> 1 - alpha_past"
proof -
  let ?q = "(1 - alpha_past) / (1 - alpha) * (1 - alpha / alpha_past)"
  have q0: "0 \<le> ?q" using assms by (intro mult_nonneg_nonneg) simp_all
  have "alpha * alpha_past \<le> alpha * 1" using assms by (intro mult_left_mono) simp_all
  then have "alpha_past - alpha \<le> alpha_past * (1 - alpha)" by (simp add: algebra_simps)
  then have "(alpha_past - alpha) / alpha_past \<le> 1 - alpha"
    using assms by (simp add: pos_divide_le_eq mult.commute)
  then have "1 - alpha / alpha_past \<le> 1 - alpha" using assms by (simp add: diff_divide_distrib)
  then have "(1 - alpha / alpha_past) / (1 - alpha) \<le> 1" using assms by (simp add: pos_divide_le_eq)
  then have "(1 - alpha_past) * ((1 - alpha / alpha_past) / (1 - alpha)) \<le> (1 - alpha_past) * 1"
    using assms by (intro mult_left_mono) simp_all
  then have q1: "?q \<le> 1 - alpha_past" by simp
  have n2: "noise_scale\<^sup>2 \<le> 1" using assms by (simp add: power_le_one)
  have "(spec_sigma noise_scale alpha alpha_past)\<^sup>2 = noise_scale\<^sup>2 * ?q"
    using q0 by (simp only: spec_sigma_def power_mult_distrib real_sqrt_pow2)
  also have "\<dots> \<le> 1 * ?q" using n2 q0 by (intro mult_right_mono)
  also have "\<dots> \<le> 1 - alpha_past" using q1 by simp
  finally show ?thesis .
qed

text \<open>
  Claim C1 (the code departs from it). With \<^verbatim>\<open>noise\<close> left at its default \<^verbatim>\<open>None\<close>,
  the first statement of \<^verbatim>\<open>ddim_step\<close> multiplies a float by \<^verbatim>\<open>None\<close> and raises
  TypeError; the fallback \<^verbatim>\<open>if sigma is None\<close> further down is never reached. At
  \<open>xt = [[1]]\<close>, \<open>x0 = [[0]]\<close>, \<open>alphas = (1/2, 3/4)\<close> the call fails, where the claim
  promises the result of a unit noise scale.
\<close>

theorem ddim_step_noise_unset_raises:
  "ddim_step (Tensor2 1 [[1]]) (Tensor2 1 [[0]]) (1/2, 3/4) None (\<lambda>i j. 0) = Inl TypeError"
  by (simp add: ddim_step_def ddpm_sigma_def py_div_def pow_half_def mul_noise_def)

text \<open>No call with the noise scale unset returns a value, whatever the other arguments.\<close>

lemma ddim_step_noise_unset_never_returns:
  "ddim_step xt x0 alphas None draw \<noteq> Inr r"
  by (cases alphas) (simp add: ddim_step_def mul_noise_def rbind_def split: sum.splits)

text \<open>
  Claim C3, as stated, fails where a radicand is negative: for \<open>alpha > alpha_past\<close>
  (here \<open>alphas = (1/2, 1/4)\<close>) \<^verbatim>\<open>ddpm_sigma\<close> takes the root of a negative number, and
  for a large noise scale (here \<open>alphas = (1/4, 1/2)\<close>, \<open>noise = 2\<close>) so does the
  coefficient of \<open>eps\<close>; the result is then not a real tensor.
\<close>

theorem ddim_step_formula_counterexample:
  "ddim_step (Tensor2 1 [[1]]) (Tensor2 1 [[0]]) (1/2, 1/4) (Some 1) (\<lambda>i j. 0) = Inl NonReal
   \<and> ddim_step (Tensor2 1 [[1]]) (Tensor2 1 [[0]]) (1/4, 1/2) (Some 2) (\<lambda>i j. 0) = Inl NonReal"
  by (simp add: ddim_step_def ddpm_sigma_def py_div_def pow_half_def mul_noise_def
      tzip_def shape_def smul_def tdiv_scalar_def randn_like_def power_mult_distrib)

text \<open>
  Claim C3, amended. For an \<open>M \<times> D\<close> pair \<open>(xt, x0)\<close>, \<open>alpha\<close> in \<open>(0,1)\<close>, \<open>alpha_past\<close>
  in \<open>(0,1]\<close> with \<open>alpha \<le> alpha_past\<close>, and a non-negative noise scale whose \<open>sigma\<close>
  satisfies \<open>sigma\<^sup>2 \<le> 1 - alpha_past\<close>, \<^verbatim>\<open>ddim_step\<close> returns an \<open>M \<times> D\<close> tensor whose
  element \<open>(i, j)\<close> is
  \<open>sqrt alpha_past * x0 + sqrt (1 - alpha_past - sigma\<^sup>2) * eps + sigma * draw i j\<close>
  with \<open>eps = (xt - sqrt alpha * x0) / sqrt (1 - alpha)\<close> and
  \<open>sigma = noise_scale * sqrt ((1 - alpha_past) / (1 - alpha) * (1 - alpha / alpha_past))\<close>.
\<close>

theorem ddim_step_formula:
  assumes "wf_tensor xt" "wf_tensor x0" "shape xt = (M, D)" "shape x0 = (M, D)"
    and "0 < alpha" "alpha < 1" "0 < alpha_past" "alpha_past \<le> 1" "0 \<le> noise_scale"
    and "alpha \<le> alpha_past"
    and "(spec_sigma noise_scale alpha alpha_past)\<^sup>2 \<le> 1 - alpha_past"
  shows "\<exists>r. ddim_step xt x0 (alpha, alpha_past) (Some noise_scale) draw = Inr r
    \<and> wf_tensor r \<and> shape r = (M, D)
    \<and> (\<forall>i<M. \<forall>j<D. rows r ! i ! j =
          spec_x_next noise_scale alpha alpha_past (rows xt ! i ! j) (rows x0 ! i ! j) (draw i j))"
proof -
  let ?s = "sqrt ((1 - alpha_past) / (1 - alpha) * (1 - alpha / alpha_past))"
  have xt: "xt = tab M D (\<lambda>i j. rows xt ! i ! j)"
    using assms(1,3) by (rule tab_of_shape)
  have x0: "x0 = tab M D (\<lambda>i j. rows x0 ! i ! j)"
    using assms(2,4) by (rule tab_of_shape)
  have s: "ddpm_sigma alpha alpha_past = Inr ?s"
    using assms by (intro ddpm_sigma_ok) simp_all
  have sn: "?s * noise_scale = spec_sigma noise_scale alpha alpha_past"
    by (simp add: spec_sigma_def)
  have c: "0 \<le> 1 - alpha_past - (?s * noise_scale)\<^sup>2"
    using assms(11) unfolding sn by simp
  have "ddim_step (tab M D (\<lambda>i j. rows xt ! i ! j)) (tab M D (\<lambda>i j. rows x0 ! i ! j))
      (alpha, alpha_past) (Some noise_scale) draw =
    Inr (tab M D (\<lambda>i j. spec_x_next noise_scale alpha alpha_past
      (rows xt ! i ! j) (rows x0 ! i ! j) (draw i j)))"
    using assms(5-8) c unfolding spec_x_next_def spec_eps_def sn [symmetric]
    by (subst ddim_step_tab [OF _ _ _ s]) simp_all
  then have "ddim_step xt x0 (alpha, alpha_past) (Some noise_scale) draw =
    Inr (tab M D (\<lambda>i j. spec_x_next noise_scale alpha alpha_past
      (rows xt ! i ! j) (rows x0 ! i ! j) (draw i j)))"
    using xt x0 by simp
  then show ?thesis by (simp add: rows_tab_nth)
qed

theorem ddim_step_formula_witness:
  "\<exists>r. ddim_step (Tensor2 1 [[1]]) (Tensor2 1 [[0]]) (1/2, 3/4) (Some 1) (\<lambda>i j. 2) = Inr r
    \<and> wf_tensor r \<and> shape r = (1, 1)
    \<and> (\<forall>i<1. \<forall>j<1. rows r ! i ! j =
          spec_x_next 1 (1/2) (3/4) (rows (Tensor2 1 [[1]]) ! i ! j)
            (rows (Tensor2 1 [[0]]) ! i ! j) 2)"
proof -
  have "(spec_sigma 1 (1/2) (3/4))\<^sup>2 \<le> 1 - 3/4"
    by (rule order_trans [OF spec_sigma_bound]) simp_all
  then show ?thesis
    using ddim_step_formula [of "Tensor2 1 [[1]]" "Tensor2 1 [[0]]" 1 1 "1/2" "3/4" 1 "\<lambda>i j. 2"]
    by (simp add: wf_tensor_def shape_def)
qed

text \<open>
  Claim C5. For an \<open>M \<times> D\<close> pair \<open>(xt, x0)\<close> and \<open>alpha = alpha_past\<close> in \<open>(0,1)\<close>, the
  step with noise scale 0 returns \<open>xt\<close> itself (in real arithmetic), whatever the random
  draw.
\<close>

theorem ddim_step_identity:
  assumes "wf_tensor xt" "wf_tensor x0" "shape xt = (M, D)" "shape x0 = (M, D)"
    and "0 < alpha" "alpha < 1"
  shows "ddim_step xt x0 (alpha, alpha) (Some 0) draw = Inr xt"
proof -
  have xt: "xt = tab M D (\<lambda>i j. rows xt ! i ! j)"
    using assms(1,3) by (rule tab_of_shape)
  have x0: "x0 = tab M D (\<lambda>i j. rows x0 ! i ! j)"
    using assms(2,4) by (rule tab_of_shape)
  have s: "ddpm_sigma alpha alpha = Inr 0"
    using assms by (simp add: ddpm_sigma_def py_div_def pow_half_def)
  have "ddim_step (tab M D (\<lambda>i j. rows xt ! i ! j)) (tab M D (\<lambda>i j. rows x0 ! i ! j))
      (alpha, alpha) (Some 0) draw = Inr (tab M D (\<lambda>i j. rows xt ! i ! j))"
    using assms(5,6) by (subst ddim_step_tab [OF _ _ _ s]) (simp_all cong: tab_cong)
  then show ?thesis using xt x0 by simp
qed

theorem ddim_step_identity_witness:
  "ddim_step (Tensor2 1 [[1]]) (Tensor2 1 [[0]]) (1/2, 1/2) (Some 0) (\<lambda>i j. 7)
     = Inr (Tensor2 1 [[1]])"
  using ddim_step_identity [of "Tensor2 1 [[1]]" "Tensor2 1 [[0]]" 1 1 "1/2" "\<lambda>i j. 7"]
  by (simp add: wf_tensor_def shape_def)

text \<open>
  Claim C6. With noise scale 0, two calls of \<^verbatim>\<open>ddim_step\<close> on the same
  \<open>(xt, x0, alpha, alpha_past)\<close> give the same result whatever the two random draws
  \<open>draw1\<close> and \<open>draw2\<close> are: the term \<open>sigma * \<epsilon>\<close> is zero. This holds for every input,
  so in particular for \<open>alpha\<close> in \<open>(0,1)\<close> and \<open>alpha_past\<close> in \<open>(0,1]\<close>.
\<close>

theorem ddim_step_deterministic:
  "ddim_step xt x0 (alpha, alpha_past) (Some 0) draw1
     = ddim_step xt x0 (alpha, alpha_past) (Some 0) draw2"
proof -
  have "smul 0 (randn_like draw1 x0) = smul 0 (randn_like draw2 x0)"
    by (simp add: smul_def randn_like_def)
  then show ?thesis
    by (simp add: ddim_step_def mul_noise_def rbind_def split: sum.splits)
qed

section \<open>The estimator: one query row\<close>

lemma mapM_r_all_Inr:
  "(\<And>a. a \<in> set xs \<Longrightarrow> f a = Inr (g a)) \<Longrightarrow> mapM_r f xs = Inr (map g xs)"
  by (induction xs) simp_all

lemma mapM_r_map: "mapM_r f (map g xs) = mapM_r (\<lambda>a. f (g a)) xs"
  by (induction xs) simp_all

lemma sum_list_upt: "sum_list (map f [0..<n]) = (\<Sum>i<n. f i)"
  by (simp add: interv_sum_list_conv_sum_set_nat atLeast0LessThan)

lemma eps9_pos: "0 < eps9"
  by (simp add: eps9_def)

lemma tmul_scalar_tab: "tmul_scalar (tab N D X) c = tab N D (\<lambda>i k. X i k * c)"
  by (simp add: tmul_scalar_def tab_def)

lemma row_sub_tab:
  "row_sub (map Q [0..<D]) (tab N D Y) = Inr (tab N D (\<lambda>i k. Q k - Y i k))"
  by (simp add: row_sub_def tab_def list_eq_iff_nth_eq)

lemma norm_t_tab:
  "norm_t (tab N D Z) =
     map (\<lambda>i. if D = 1 then \<bar>Z i 0\<bar> else sqrt (\<Sum>k<D. (Z i k)\<^sup>2)) [0..<N]"
  by (simp add: norm_t_def tab_def sum_list_upt o_def)

lemma norm_sq:
  fixes Z :: "nat \<Rightarrow> real"
  shows "(if D = 1 then \<bar>Z 0\<bar> else sqrt (\<Sum>k<D. (Z k)\<^sup>2))\<^sup>2 = (\<Sum>k<D. (Z k)\<^sup>2)"
proof (cases "D = 1")
  case True
  have "(\<Sum>k<Suc 0. (Z k)\<^sup>2) = (Z 0)\<^sup>2" by simp
  then show ?thesis using True by simp
next
  case False
  then show ?thesis by (simp add: sum_nonneg)
qed

lemma gaussian_prob_tab:
  assumes "sigma \<noteq> 0"
  shows "gaussian_prob (map Q [0..<D]) (tab N D Y) sigma =
    Inr (map (\<lambda>i. exp (- (\<Sum>k<D. (Q k - Y i k)\<^sup>2) / (2 * sigma\<^sup>2))) [0..<N])"
proof -
  have "mapM_r (\<lambda>i. exp_neg_div (if D = 1 then \<bar>Q 0 - Y i 0\<bar> else sqrt (\<Sum>k<D. (Q k - Y i k)\<^sup>2))
          (2 * sigma\<^sup>2)) [0..<N] =
    Inr (map (\<lambda>i. exp (- (\<Sum>k<D. (Q k - Y i k)\<^sup>2) / (2 * sigma\<^sup>2))) [0..<N])"
  proof (rule mapM_r_all_Inr)
    fix i
    have "exp_neg_div (if D = 1 then \<bar>Q 0 - Y i 0\<bar> else sqrt (\<Sum>k<D. (Q k - Y i k)\<^sup>2))
        (2 * sigma\<^sup>2) =
      Inr (exp (- ((if D = 1 then \<bar>Q 0 - Y i 0\<bar> else sqrt (\<Sum>k<D. (Q k - Y i k)\<^sup>2))\<^sup>2)
        / (2 * sigma\<^sup>2)))"
      using assms by (simp add: exp_neg_div_def)
    then show "exp_neg_div (if D = 1 then \<bar>Q 0 - Y i 0\<bar> else sqrt (\<Sum>k<D. (Q k - Y i k)\<^sup>2))
        (2 * sigma\<^sup>2) = Inr (exp (- (\<Sum>k<D. (Q k - Y i k)\<^sup>2) / (2 * sigma\<^sup>2)))"
      by (simp only: norm_sq [of D "\<lambda>k. Q k - Y i k"])
  qed
  then show ?thesis
    by (simp add: gaussian_prob_def row_sub_tab norm_t_tab mapM_r_map)
qed

lemma vmul_upt: "vmul (map A [0..<N]) (map B [0..<N]) = Inr (map (\<lambda>i. A i * B i) [0..<N])"
  by (simp add: vmul_def list_eq_iff_nth_eq)

lemma vdiv_scalar_upt:
  "d \<noteq> 0 \<Longrightarrow> vdiv_scalar (map A [0..<N]) d = Inr (map (\<lambda>i. A i / d) [0..<N])"
  by (simp add: vdiv_scalar_def)

lemma scale_rows_tab:
  "scale_rows (map P [0..<N]) (tab N D X) = Inr (tab N D (\<lambda>i k. P i * X i k))"
  by (simp add: scale_rows_def tab_def list_eq_iff_nth_eq)

lemma sum_dim0_tab: "sum_dim0 (tab N D Z) = map (\<lambda>k. \<Sum>i<N. Z i k) [0..<D]"
  by (simp add: sum_dim0_def tab_def o_def sum_list_upt)

lemma priv_estimate_tab:
  assumes x: "est_x st = tab N D X" and f: "est_fitness st = map F [0..<N]"
    and a: "0 \<le> est_alpha st" "est_alpha st < 1"
    and p: "p + eps9 \<noteq> 0"
    and W: "W = (\<lambda>i. (F i + eps9)
          * (exp (- (\<Sum>k<D. (Q k - X i k * sqrt (est_alpha st))\<^sup>2) / (2 * (1 - est_alpha st))) + eps9)
          / (p + eps9))"
    and z: "(\<Sum>i<N. W i) + eps9 \<noteq> 0"
  shows "priv_estimate st (map Q [0..<D]) p =
    Inr (map (\<lambda>k. (\<Sum>i<N. W i * X i k) / ((\<Sum>i<N. W i) + eps9)) [0..<D])"
proof -
  define G where "G = (\<lambda>i. exp (- (\<Sum>k<D. (Q k - X i k * sqrt (est_alpha st))\<^sup>2)
      / (2 * (1 - est_alpha st))))"
  have s: "sqrt (1 - est_alpha st) \<noteq> 0" "(sqrt (1 - est_alpha st))\<^sup>2 = 1 - est_alpha st"
    using a by simp_all
  have ra: "pow_half (est_alpha st) = Inr (sqrt (est_alpha st))"
    using a by (simp add: pow_half_def)
  have rs: "pow_half (1 - est_alpha st) = Inr (sqrt (1 - est_alpha st))"
    using a by (simp add: pow_half_def)
  have mu: "tmul_scalar (est_x st) (sqrt (est_alpha st)) =
      tab N D (\<lambda>i k. X i k * sqrt (est_alpha st))"
    by (simp only: x tmul_scalar_tab)
  have g: "gaussian_prob (map Q [0..<D]) (tab N D (\<lambda>i k. X i k * sqrt (est_alpha st)))
      (sqrt (1 - est_alpha st)) = Inr (map G [0..<N])"
    using gaussian_prob_tab [OF s(1)] by (simp only: s(2) G_def)
  have fm: "map (\<lambda>f. f + eps9) (est_fitness st) = map (\<lambda>i. F i + eps9) [0..<N]"
    by (simp add: f)
  have pm: "map (\<lambda>p. p + eps9) (map G [0..<N]) = map (\<lambda>i. G i + eps9) [0..<N]"
    by simp
  have num: "vmul (map (\<lambda>i. F i + eps9) [0..<N]) (map (\<lambda>i. G i + eps9) [0..<N]) =
      Inr (map (\<lambda>i. (F i + eps9) * (G i + eps9)) [0..<N])"
    by (rule vmul_upt)
  have "(\<lambda>i. (F i + eps9) * (G i + eps9) / (p + eps9)) = W"
    by (simp only: W G_def)
  then have prob: "vdiv_scalar (map (\<lambda>i. (F i + eps9) * (G i + eps9)) [0..<N]) (p + eps9) =
      Inr (map W [0..<N])"
    using vdiv_scalar_upt [OF p, of "\<lambda>i. (F i + eps9) * (G i + eps9)" N] by simp
  have sc: "scale_rows (map W [0..<N]) (est_x st) = Inr (tab N D (\<lambda>i k. W i * X i k))"
    by (simp only: x scale_rows_tab)
  have sd: "sum_dim0 (tab N D (\<lambda>i k. W i * X i k)) = map (\<lambda>k. \<Sum>i<N. W i * X i k) [0..<D]"
    by (rule sum_dim0_tab)
  have z': "sum_list (map W [0..<N]) = (\<Sum>i<N. W i)"
    by (rule sum_list_upt)
  have fin: "vdiv_scalar (map (\<lambda>k. \<Sum>i<N. W i * X i k) [0..<D]) ((\<Sum>i<N. W i) + eps9) =
      Inr (map (\<lambda>k. (\<Sum>i<N. W i * X i k) / ((\<Sum>i<N. W i) + eps9)) [0..<D])"
    using z by (rule vdiv_scalar_upt)
  show ?thesis
    unfolding priv_estimate_def
    by (simp only: ra rs mu g fm pm num prob sc sd z' fin rbind_Inr Let_def)
qed

section \<open>The estimator: a batch of queries\<close>

lemma zip_replicate_length: "zip xs (replicate (length xs) c) = map (\<lambda>a. (a, c)) xs"
  by (induction xs) simp_all

lemma estimate_rows:
  assumes "est_density_method st = ''uniform''"
  shows "estimate st x_t =
    rbind (mapM_r (\<lambda>row. priv_estimate st row (1 / real (length (rows x_t)))) (rows x_t))
      (\<lambda>origin. Inr (Tensor2 (ncols (est_x st)) origin))"
  using assms by (simp add: estimate_def density_def zip_replicate_length mapM_r_map)

lemma spec_weight_nonneg:
  assumes "0 \<le> est_fitness st ! i"
  shows "0 \<le> spec_weight st M xq i"
proof -
  have "0 \<le> est_fitness st ! i + 1 / 10 ^ 9" using assms by simp
  moreover have "0 \<le> exp (- spec_sqdist st xq i / (2 * (1 - est_alpha st))) + (1 / 10 ^ 9 :: real)"
    by (simp add: add_nonneg_nonneg)
  moreover have "0 \<le> 1 / real M + 1 / 10 ^ 9" by simp
  ultimately show ?thesis
    unfolding spec_weight_def by (intro divide_nonneg_nonneg mult_nonneg_nonneg)
qed

lemma spec_denominator_pos:
  assumes "\<forall>f\<in>set (est_fitness st). 0 \<le> f" "length (est_fitness st) = N"
  shows "0 < (\<Sum>i<N. spec_weight st M xq i) + 1 / 10 ^ 9"
proof -
  have "0 \<le> (\<Sum>i<N. spec_weight st M xq i)"
  proof (rule sum_nonneg)
    fix i assume "i \<in> {..<N}"
    then have "est_fitness st ! i \<in> set (est_fitness st)" using assms(2) by simp
    then show "0 \<le> spec_weight st M xq i" using assms(1) by (intro spec_weight_nonneg) blast
  qed
  then show ?thesis by simp
qed

lemma priv_estimate_spec:
  assumes x: "est_x st = tab N D X" and f: "length (est_fitness st) = N"
    and a: "0 \<le> est_alpha st" "est_alpha st < 1"
    and len: "length xq = D"
    and z: "(\<Sum>i<N. spec_weight st M xq i) + 1 / 10 ^ 9 \<noteq> 0"
  shows "priv_estimate st xq (1 / real M) = Inr (map (spec_x0_est st M xq) [0..<D])"
proof -
  define W where "W = (\<lambda>i. (est_fitness st ! i + eps9)
      * (exp (- (\<Sum>k<D. (xq ! k - X i k * sqrt (est_alpha st))\<^sup>2) / (2 * (1 - est_alpha st))) + eps9)
      / (1 / real M + eps9))"
  have xq: "map (\<lambda>k. xq ! k) [0..<D] = xq"
    unfolding len [symmetric] by (rule map_nth)
  have f': "est_fitness st = map (\<lambda>i. est_fitness st ! i) [0..<N]"
    unfolding f [symmetric] by (simp add: map_nth)
  have p: "1 / real M + eps9 \<noteq> 0"
  proof -
    have "0 \<le> 1 / real M" by simp
    then have "0 < 1 / real M + eps9" using eps9_pos by (rule add_nonneg_pos)
    then show ?thesis by simp
  qed
  have sq: "spec_sqdist st xq i = (\<Sum>k<D. (xq ! k - X i k * sqrt (est_alpha st))\<^sup>2)"
    if "i < N" for i
    unfolding spec_sqdist_def x
    by (rule sum.cong) (simp_all add: tab_def that mult.commute)
  have Wspec: "W i = spec_weight st M xq i" if "i < N" for i
    by (simp only: W_def spec_weight_def sq [OF that] eps9_def)
  have s1: "(\<Sum>i<N. W i) = (\<Sum>i<N. spec_weight st M xq i)"
    by (rule sum.cong) (simp_all add: Wspec)
  have s2: "(\<Sum>i<N. W i * X i k) = (\<Sum>i<N. spec_weight st M xq i * rows (est_x st) ! i ! k)"
    if "k < D" for k
    by (rule sum.cong) (simp_all add: Wspec x rows_tab_nth that)
  have z': "(\<Sum>i<N. W i) + eps9 \<noteq> 0"
    unfolding s1 eps9_def by (rule z)
  have N: "length (rows (est_x st)) = N"
    by (simp add: x tab_def)
  have "priv_estimate st (map (\<lambda>k. xq ! k) [0..<D]) (1 / real M) =
      Inr (map (\<lambda>k. (\<Sum>i<N. W i * X i k) / ((\<Sum>i<N. W i) + eps9)) [0..<D])"
    using x f' a p W_def z' by (rule priv_estimate_tab)
  moreover have "map (\<lambda>k. (\<Sum>i<N. W i * X i k) / ((\<Sum>i<N. W i) + eps9)) [0..<D] =
      map (spec_x0_est st M xq) [0..<D]"
    by (rule map_cong) (simp_all add: spec_x0_est_def N s1 s2 eps9_def)
  ultimately show ?thesis by (simp only: xq)
qed

lemma estimate_closed:
  assumes u: "est_density_method st = ''uniform''"
    and x: "wf_tensor (est_x st)" "shape (est_x st) = (N, D)"
    and f: "length (est_fitness st) = N"
    and a: "0 \<le> est_alpha st" "est_alpha st < 1"
    and q: "wf_tensor x_t" "shape x_t = (M, D)"
    and z: "\<forall>j<M. (\<Sum>i<N. spec_weight st M (rows x_t ! j) i) + 1 / 10 ^ 9 \<noteq> 0"
  shows "estimate st x_t = Inr (tab M D (\<lambda>j k. spec_x0_est st M (rows x_t ! j) k))"
proof -
  have xt: "est_x st = tab N D (\<lambda>i k. rows (est_x st) ! i ! k)"
    using x by (rule tab_of_shape)
  have M: "length (rows x_t) = M" and D: "ncols (est_x st) = D"
    using q(2) x(2) by (simp_all add: shape_def)
  have "mapM_r (\<lambda>row. priv_estimate st row (1 / real M)) (rows x_t) =
      Inr (map (\<lambda>row. map (spec_x0_est st M row) [0..<D]) (rows x_t))"
  proof (rule mapM_r_all_Inr)
    fix row assume r: "row \<in> set (rows x_t)"
    then obtain j where j: "j < M" "row = rows x_t ! j"
      using M by (auto simp: in_set_conv_nth)
    have len: "length row = D"
      using q r by (simp add: wf_tensor_def list_all_iff shape_def)
    have "(\<Sum>i<N. spec_weight st M row i) + 1 / 10 ^ 9 \<noteq> 0"
      using z j by simp
    with xt f a len show "priv_estimate st row (1 / real M) = Inr (map (spec_x0_est st M row) [0..<D])"
      by (rule priv_estimate_spec)
  qed
  moreover have "map (\<lambda>row. map (spec_x0_est st M row) [0..<D]) (rows x_t) =
      map (\<lambda>j. map (spec_x0_est st M (rows x_t ! j)) [0..<D]) [0..<M]"
    using M by (simp add: list_eq_iff_nth_eq)
  ultimately show ?thesis
    by (simp add: estimate_rows [OF u] M D tab_def)
qed





section \<open>Independence of the query rows\<close>

lemma ok_Inr [simp]: "ok (Inr v) = Some v"
  by (simp add: ok_def)

lemma ok_Inl [simp]: "ok (Inl e) = None"
  by (simp add: ok_def)

lemma ok_rbind_Inr: "ok (rbind m (\<lambda>v. Inr (g v))) = map_option g (ok m)"
  by (cases m) simp_all

lemma ok_mapM_r: "ok (mapM_r f xs) = those (map (\<lambda>a. ok (f a)) xs)"
proof (induction xs)
  case Nil
  show ?case by simp
next
  case (Cons a xs)
  show ?case
  proof (cases "f a")
    case (Inl e)
    then show ?thesis by simp
  next
    case (Inr b)
    show ?thesis
    proof (cases "mapM_r f xs")
      case (Inl e)
      then show ?thesis using Inr Cons.IH [symmetric] by simp
    next
      case bs: (Inr bs)
      then show ?thesis using Inr Cons.IH [symmetric] by simp
    qed
  qed
qed

lemma mapM_r_Inr_nth:
  "mapM_r f xs = Inr ys \<Longrightarrow> j < length xs \<Longrightarrow> f (xs ! j) = Inr (ys ! j)"
proof (induction xs arbitrary: ys j)
  case Nil
  then show ?case by simp
next
  case (Cons a xs)
  from Cons.prems(1) obtain b bs where b: "f a = Inr b" "mapM_r f xs = Inr bs" "ys = b # bs"
    by (cases "f a"; cases "mapM_r f xs") auto
  show ?case
  proof (cases j)
    case 0
    then show ?thesis using b by simp
  next
    case (Suc i)
    then show ?thesis using Cons.IH [OF b(2), of i] Cons.prems(2) b(3) by simp
  qed
qed

lemma those_None_iff: "those xs = None \<longleftrightarrow> None \<in> set xs"
  by (induction xs) (auto split: option.splits)

lemma those_Some: "None \<notin> set xs \<Longrightarrow> those xs = Some (map the xs)"
proof (induction xs)
  case Nil
  show ?case by simp
next
  case (Cons a xs)
  then obtain y where "a = Some y" by (cases a) auto
  then show ?case using Cons by simp
qed

lemma those_permute:
  assumes "bij_betw p {..<length xs} {..<length xs}"
  shows "those (map g (map (\<lambda>i. xs ! p i) [0..<length xs])) =
    map_option (\<lambda>ys. map (\<lambda>i. ys ! p i) [0..<length xs]) (those (map g xs))"
proof (cases "None \<in> set (map g xs)")
  case True
  then obtain k where k: "k < length xs" "g (xs ! k) = None"
    by (auto simp: in_set_conv_nth)
  from assms k(1) obtain i where i: "i < length xs" "p i = k"
    unfolding bij_betw_def by (metis imageE lessThan_iff)
  have "g (xs ! p i) \<in> set (map g (map (\<lambda>i. xs ! p i) [0..<length xs]))"
    using i(1) by simp
  then have "None \<in> set (map g (map (\<lambda>i. xs ! p i) [0..<length xs]))"
    by (simp only: i(2) k(2))
  then have "those (map g (map (\<lambda>i. xs ! p i) [0..<length xs])) = None"
    by (simp only: those_None_iff)
  moreover have "those (map g xs) = None"
    using True by (simp only: those_None_iff)
  ultimately show ?thesis by simp
next
  case False
  have range: "p i < length xs" if "i < length xs" for i
    using assms that unfolding bij_betw_def by auto
  have "None \<notin> set (map g (map (\<lambda>i. xs ! p i) [0..<length xs]))"
  proof
    assume "None \<in> set (map g (map (\<lambda>i. xs ! p i) [0..<length xs]))"
    then obtain i where "i < length xs" "g (xs ! p i) = None" by auto
    then have "None \<in> set (map g xs)"
      using range [of i] by (metis image_eqI nth_mem set_map)
    with False show False by contradiction
  qed
  then have "those (map g (map (\<lambda>i. xs ! p i) [0..<length xs])) =
      Some (map the (map g (map (\<lambda>i. xs ! p i) [0..<length xs])))"
    by (rule those_Some)
  moreover have "those (map g xs) = Some (map the (map g xs))"
    using False by (rule those_Some)
  moreover have "map the (map g (map (\<lambda>i. xs ! p i) [0..<length xs])) =
      map (\<lambda>i. map the (map g xs) ! p i) [0..<length xs]"
    using range by simp
  ultimately show ?thesis by simp
qed

lemma those_length: "those xs = Some ys \<Longrightarrow> length ys = length xs"
  by (induction xs arbitrary: ys) (auto split: option.splits)

lemma ok_estimate:
  assumes "est_density_method st = ''uniform''"
  shows "ok (estimate st x_t) = map_option (Tensor2 (ncols (est_x st)))
    (those (map (\<lambda>row. ok (priv_estimate st row (1 / real (length (rows x_t))))) (rows x_t)))"
  by (simp only: estimate_rows [OF assms] ok_rbind_Inr ok_mapM_r)

text \<open>
  Claim C7. For an estimator with the uniform density method, an \<open>M \<times> D\<close> query batch
  \<open>x_t\<close> and a permutation \<open>p\<close> of its row indices, \<^verbatim>\<open>estimate\<close> of the permuted batch
  is the permuted \<^verbatim>\<open>estimate\<close> of the batch (and the one fails exactly when the other
  does); row \<open>j\<close> of a result is what \<^verbatim>\<open>_estimate\<close> gives for row \<open>j\<close> of the batch and the
  weight \<open>1 / M\<close>, so it depends on that row and on \<open>M\<close> only.
\<close>

theorem estimate_permutation:
  assumes "est_density_method st = ''uniform''"
    and "shape x_t = (M, D)"
    and "bij_betw p {..<M} {..<M}"
  shows "ok (estimate st (permute_rows p x_t)) = map_option (permute_rows p) (ok (estimate st x_t))
    \<and> (\<forall>r j. estimate st x_t = Inr r \<and> j < M
          \<longrightarrow> priv_estimate st (rows x_t ! j) (1 / real M) = Inr (rows r ! j))"
proof
  let ?g = "\<lambda>row. ok (priv_estimate st row (1 / real M))"
  have M: "length (rows x_t) = M"
    using assms(2) by (simp add: shape_def)
  have pr: "rows (permute_rows p x_t) = map (\<lambda>i. rows x_t ! p i) [0..<length (rows x_t)]"
    by (simp add: permute_rows_def)
  have bij: "bij_betw p {..<length (rows x_t)} {..<length (rows x_t)}"
    using assms(3) by (simp only: M)
  have "ok (estimate st (permute_rows p x_t)) =
      map_option (Tensor2 (ncols (est_x st)))
        (those (map ?g (map (\<lambda>i. rows x_t ! p i) [0..<length (rows x_t)])))"
    by (simp add: ok_estimate [OF assms(1)] pr M)
  also have "\<dots> = map_option (Tensor2 (ncols (est_x st)))
      (map_option (\<lambda>ys. map (\<lambda>i. ys ! p i) [0..<length (rows x_t)]) (those (map ?g (rows x_t))))"
    by (simp only: those_permute [OF bij])
  also have "\<dots> = map_option (permute_rows p)
      (map_option (Tensor2 (ncols (est_x st))) (those (map ?g (rows x_t))))"
  proof (cases "those (map ?g (rows x_t))")
    case None
    then show ?thesis by simp
  next
    case (Some ys)
    then have "length ys = length (rows x_t)"
      using those_length by fastforce
    then show ?thesis using Some by (simp add: permute_rows_def)
  qed
  also have "\<dots> = map_option (permute_rows p) (ok (estimate st x_t))"
    by (simp add: ok_estimate [OF assms(1)] M)
  finally show "ok (estimate st (permute_rows p x_t)) =
      map_option (permute_rows p) (ok (estimate st x_t))" .
next
  have M: "length (rows x_t) = M"
    using assms(2) by (simp add: shape_def)
  show "\<forall>r j. estimate st x_t = Inr r \<and> j < M
      \<longrightarrow> priv_estimate st (rows x_t ! j) (1 / real M) = Inr (rows r ! j)"
  proof (intro allI impI)
    fix r j assume h: "estimate st x_t = Inr r \<and> j < M"
    then obtain ys where ys:
        "mapM_r (\<lambda>row. priv_estimate st row (1 / real M)) (rows x_t) = Inr ys"
        "r = Tensor2 (ncols (est_x st)) ys"
      unfolding estimate_rows [OF assms(1)] M
      by (cases "mapM_r (\<lambda>row. priv_estimate st row (1 / real M)) (rows x_t)") auto
    from mapM_r_Inr_nth [OF ys(1)] h M
    show "priv_estimate st (rows x_t ! j) (1 / real M) = Inr (rows r ! j)"
      by (simp add: ys(2))
  qed
qed

theorem estimate_permutation_witness:
  "ok (estimate \<lparr>est_x = Tensor2 1 [[0], [1]], est_fitness = [1, 0], est_alpha = 1 / 2,
         est_density_method = ''uniform'', est_h = 1 / 10\<rparr>
       (permute_rows (\<lambda>i. 1 - i) (Tensor2 1 [[1 / 20], [3]])))
     = map_option (permute_rows (\<lambda>i. 1 - i))
         (ok (estimate \<lparr>est_x = Tensor2 1 [[0], [1]], est_fitness = [1, 0], est_alpha = 1 / 2,
           est_density_method = ''uniform'', est_h = 1 / 10\<rparr> (Tensor2 1 [[1 / 20], [3]])))
   \<and> (\<exists>r. estimate \<lparr>est_x = Tensor2 1 [[0], [1]], est_fitness = [1, 0], est_alpha = 1 / 2,
           est_density_method = ''uniform'', est_h = 1 / 10\<rparr> (Tensor2 1 [[1 / 20], [3]]) = Inr r
        \<and> priv_estimate \<lparr>est_x = Tensor2 1 [[0], [1]], est_fitness = [1, 0], est_alpha = 1 / 2,
           est_density_method = ''uniform'', est_h = 1 / 10\<rparr> [3] (1 / 2) = Inr (rows r ! 1))"
proof -
  let ?st = "\<lparr>est_x = Tensor2 1 [[0], [1]], est_fitness = [1, 0], est_alpha = 1 / 2,
    est_density_method = ''uniform'', est_h = 1 / 10\<rparr>"
  let ?q = "Tensor2 1 [[1 / 20], [3]]"
  have "{..<2::nat} = {0, 1}" by auto
  then have bij: "bij_betw (\<lambda>i. 1 - i) {..<2::nat} {..<2}"
    by (auto simp: bij_betw_def inj_on_def)
  have "\<forall>j<2. (\<Sum>i<2. spec_weight ?st 2 (rows ?q ! j) i) + 1 / 10 ^ 9 \<noteq> 0"
    using spec_denominator_pos [of ?st 2 2] by (simp add: less_imp_neq [symmetric])
  then have e: "estimate ?st ?q = Inr (tab 2 1 (\<lambda>j k. spec_x0_est ?st 2 (rows ?q ! j) k))"
    by (intro estimate_closed) (simp_all add: wf_tensor_def shape_def)
  have s: "shape ?q = (2, 1)" by (simp add: shape_def)
  have p: "ok (estimate ?st (permute_rows (\<lambda>i. 1 - i) ?q))
        = map_option (permute_rows (\<lambda>i. 1 - i)) (ok (estimate ?st ?q))"
    and r: "\<forall>r j. estimate ?st ?q = Inr r \<and> j < 2
        \<longrightarrow> priv_estimate ?st (rows ?q ! j) (1 / real 2) = Inr (rows r ! j)"
    using estimate_permutation [of ?st ?q 2 1 "\<lambda>i. 1 - i", OF _ s bij] by simp_all
  from r e have "priv_estimate ?st (rows ?q ! 1) (1 / real 2)
      = Inr (rows (tab 2 1 (\<lambda>j k. spec_x0_est ?st 2 (rows ?q ! j) k)) ! 1)"
    by (intro r [rule_format]) simp
  then have "priv_estimate ?st [3] (1 / 2)
      = Inr (rows (tab 2 1 (\<lambda>j k. spec_x0_est ?st 2 (rows ?q ! j) k)) ! 1)"
    by simp
  with p e show ?thesis by blast
qed

section \<open>Construction and the state of the estimator\<close>

text \<open>
  Claim C8. The constructor succeeds when the density method is \<open>uniform\<close> and raises
  NotImplementedError for every other one: it fails, before any query, exactly when
  the method is unsupported.
\<close>

theorem constructor_rejects_unsupported_density:
  "(density_arg = ''uniform'' \<longrightarrow>
      BayesianEstimator x fitness alpha density_arg h =
        Inr \<lparr>est_x = x, est_fitness = fitness, est_alpha = alpha,
             est_density_method = ''uniform'', est_h = h\<rparr>)
   \<and> (density_arg \<noteq> ''uniform'' \<longrightarrow>
      BayesianEstimator x fitness alpha density_arg h = Inl NotImplementedError)"
  by (simp add: BayesianEstimator_def)

theorem constructor_rejects_unsupported_density_witness:
  "BayesianEstimator (Tensor2 1 [[0], [1]]) [1, 0] (1 / 2) ''uniform'' (1 / 10) =
     Inr \<lparr>est_x = Tensor2 1 [[0], [1]], est_fitness = [1, 0], est_alpha = 1 / 2,
          est_density_method = ''uniform'', est_h = 1 / 10\<rparr>
   \<and> BayesianEstimator (Tensor2 1 [[0], [1]]) [1, 0] (1 / 2) ''kde'' (1 / 10) =
     Inl NotImplementedError"
  using constructor_rejects_unsupported_density
      [of "''uniform''" "Tensor2 1 [[0], [1]]" "[1, 0]" "1 / 2" "1 / 10"]
    constructor_rejects_unsupported_density
      [of "''kde''" "Tensor2 1 [[0], [1]]" "[1, 0]" "1 / 2" "1 / 10"]
  by simp

text \<open>
  Claim C9. A call of \<^verbatim>\<open>density\<close>, \<^verbatim>\<open>estimate\<close> or \<^verbatim>\<open>__call__\<close> leaves the estimator as it
  was, for every argument. \<^verbatim>\<open>append\<close> on estimators of one column count sets \<open>x\<close> to the
  rows of \<open>self\<close> followed by those of \<open>other\<close> and \<open>fitness\<close> to the fitness of \<open>self\<close>
  followed by that of \<open>other\<close>, and changes no other field (on different column counts
  the concatenation raises and nothing is changed); if \<open>x\<close> and \<open>fitness\<close> have equal
  lengths in both estimators, they have in the result.
\<close>

theorem estimator_state_changes_only_by_append:
  "(\<forall>c. (\<forall>other. c \<noteq> Append other) \<longrightarrow> snd (exec c self) = self)
   \<and> (ncols (est_x self) = ncols (est_x other) \<longrightarrow>
        exec (Append other) self =
          (Inr RNone,
           self\<lparr>est_x := Tensor2 (ncols (est_x self)) (rows (est_x self) @ rows (est_x other)),
                est_fitness := est_fitness self @ est_fitness other\<rparr>))
   \<and> (ncols (est_x self) \<noteq> ncols (est_x other) \<longrightarrow>
        exec (Append other) self = (Inl ShapeError, self))
   \<and> (length (rows (est_x self)) = length (est_fitness self)
        \<and> length (rows (est_x other)) = length (est_fitness other) \<longrightarrow>
        length (rows (est_x (snd (exec (Append other) self))))
          = length (est_fitness (snd (exec (Append other) self))))"
proof (intro conjI allI impI)
  fix c assume "\<forall>other. c \<noteq> Append other"
  then show "snd (exec c self) = self" by (cases c) simp_all
next
  assume "ncols (est_x self) = ncols (est_x other)"
  then show "exec (Append other) self =
      (Inr RNone,
       self\<lparr>est_x := Tensor2 (ncols (est_x self)) (rows (est_x self) @ rows (est_x other)),
            est_fitness := est_fitness self @ est_fitness other\<rparr>)"
    by (simp add: append_est_def cat0_def)
next
  assume "ncols (est_x self) \<noteq> ncols (est_x other)"
  then show "exec (Append other) self = (Inl ShapeError, self)"
    by (simp add: append_est_def cat0_def)
next
  assume "length (rows (est_x self)) = length (est_fitness self)
      \<and> length (rows (est_x other)) = length (est_fitness other)"
  then show "length (rows (est_x (snd (exec (Append other) self))))
      = length (est_fitness (snd (exec (Append other) self)))"
    by (simp add: append_est_def cat0_def)
qed

theorem estimator_state_changes_only_by_append_witness:
  "snd (exec (Estimate (Tensor2 1 [[1 / 20]]))
      \<lparr>est_x = Tensor2 1 [[0], [1]], est_fitness = [1, 0], est_alpha = 1 / 2,
        est_density_method = ''uniform'', est_h = 1 / 10\<rparr>)
     = \<lparr>est_x = Tensor2 1 [[0], [1]], est_fitness = [1, 0], est_alpha = 1 / 2,
        est_density_method = ''uniform'', est_h = 1 / 10\<rparr>
   \<and> exec (Append \<lparr>est_x = Tensor2 1 [[2]], est_fitness = [3], est_alpha = 1 / 4,
        est_density_method = ''uniform'', est_h = 1 / 5\<rparr>)
      \<lparr>est_x = Tensor2 1 [[0], [1]], est_fitness = [1, 0], est_alpha = 1 / 2,
        est_density_method = ''uniform'', est_h = 1 / 10\<rparr>
     = (Inr RNone,
        \<lparr>est_x = Tensor2 1 [[0], [1], [2]], est_fitness = [1, 0, 3], est_alpha = 1 / 2,
         est_density_method = ''uniform'', est_h = 1 / 10\<rparr>)
   \<and> exec (Append \<lparr>est_x = Tensor2 2 [[2, 2]], est_fitness = [3], est_alpha = 1 / 4,
        est_density_method = ''uniform'', est_h = 1 / 5\<rparr>)
      \<lparr>est_x = Tensor2 1 [[0], [1]], est_fitness = [1, 0], est_alpha = 1 / 2,
        est_density_method = ''uniform'', est_h = 1 / 10\<rparr>
     = (Inl ShapeError,
        \<lparr>est_x = Tensor2 1 [[0], [1]], est_fitness = [1, 0], est_alpha = 1 / 2,
         est_density_method = ''uniform'', est_h = 1 / 10\<rparr>)"
proof -
  let ?self = "\<lparr>est_x = Tensor2 1 [[0], [1]], est_fitness = [1, 0], est_alpha = 1 / 2,
    est_density_method = ''uniform'', est_h = 1 / 10\<rparr>"
  let ?o1 = "\<lparr>est_x = Tensor2 1 [[2]], est_fitness = [3], est_alpha = 1 / 4,
    est_density_method = ''uniform'', est_h = 1 / 5\<rparr>"
  let ?o2 = "\<lparr>est_x = Tensor2 2 [[2, 2]], est_fitness = [3], est_alpha = 1 / 4,
    est_density_method = ''uniform'', est_h = 1 / 5\<rparr>"
  have a: "\<forall>other. Estimate (Tensor2 1 [[1 / 20]]) \<noteq> Append other" by simp
  from estimator_state_changes_only_by_append [of ?self ?o1]
  have 1: "snd (exec (Estimate (Tensor2 1 [[1 / 20]])) ?self) = ?self"
    and 2: "exec (Append ?o1) ?self =
      (Inr RNone, \<lparr>est_x = Tensor2 1 [[0], [1], [2]], est_fitness = [1, 0, 3],
        est_alpha = 1 / 2, est_density_method = ''uniform'', est_h = 1 / 10\<rparr>)"
    using a by simp_all
  from estimator_state_changes_only_by_append [of ?self ?o2]
  have 3: "exec (Append ?o2) ?self = (Inl ShapeError, ?self)"
    by simp
  from 1 2 3 show ?thesis by simp
qed

section \<open>The generator: the elite parameters\<close>

text \<open>
  Claim C10. The value of \<^verbatim>\<open>generate\<close> is the same for any two values of \<^verbatim>\<open>elite_rate\<close>
  and for any two values of the constructor's \<^verbatim>\<open>elite_strategy\<close> flag, all other
  inputs and the random draw being the same (a failed construction fails alike).
\<close>

theorem generate_ignores_elite_parameters:
  "rbind (BayesianGenerator x fitness alphas density_arg h elite_strategy1)
     (\<lambda>g. generate normalize_fn g x_t noise elite_rate1 return_x0 draw)
   = rbind (BayesianGenerator x fitness alphas density_arg h elite_strategy2)
     (\<lambda>g. generate normalize_fn g x_t noise elite_rate2 return_x0 draw)"
  by (cases alphas)
    (simp add: BayesianGenerator_def BayesianEstimator_def generate_def)

end
